theory Spec2Isabelle
  imports Main
begin

section \<open>solo: a shell singleton (src/solo.c)\<close>

text \<open>
  The program is a single C file. One process runs \<open>main\<close>; everything it does to the
  outside world is a system or library call. The model threads an explicit process state
  through the calls, records every call in a trace, and takes what the operating system
  answers from an oracle record \<open>os\<close>: a return value and, for a failing call, the value
  left in \<open>errno\<close>. The theorems quantify over every oracle, so they hold for whatever the
  kernel answers.

  Conventions of the model:
  \<^item> C strings are \<open>string\<close>; the null pointer is \<open>None\<close>.
  \<^item> C \<open>int\<close> values (return values, descriptors, errno, exit statuses) are \<open>int\<close>; no
    arithmetic is done on them, only comparisons with \<open>-1\<close> and \<open>0\<close>.
  \<^item> \<open>exit\<close>, and \<open>return\<close> from \<open>main\<close>, end the process: the model returns the final
    state and the status. A successful \<open>execvp\<close> does not return either.
  \<^item> \<open>perror\<close>, \<open>printf\<close> and \<open>fprintf\<close> may change \<open>errno\<close>, as the C library allows; the
    value they leave is an answer of the oracle too. The program reads \<open>errno\<close> after them
    (\<open>perror(...); graceful_exit(errno)\<close>), and so does the model.
  \<^item> In the branch that derives the lock path, \<open>lockfile\<close> is left pointing at the local
    array \<open>filepath\<close>, which it outlives; the model takes the characters to stay as
    \<open>snprintf\<close> wrote them.
  \<^item> \<open>fork\<close> returns in two processes. A run of the model follows one of them: the one
    that sees the return value the oracle gives (\<open>0\<close> in the child, the child's pid in the
    parent, \<open>-1\<close> when no child was made).
\<close>

subsection \<open>Constants of the platform headers\<close>

definition PATH_MAX :: nat where
  \<comment> \<open>linux/limits.h\<close>
  "PATH_MAX = 4096"

definition SIGHUP :: int where "SIGHUP = 1"
definition SIGINT :: int where "SIGINT = 2"
definition SIGTERM :: int where "SIGTERM = 15"

definition ENOENT :: int where "ENOENT = 2"
definition EBADF :: int where "EBADF = 9"
definition EAGAIN :: int where "EAGAIN = 11"
definition EACCES :: int where "EACCES = 13"
definition EFAULT :: int where "EFAULT = 14"
definition EINVAL :: int where "EINVAL = 22"
definition ENAMETOOLONG :: int where "ENAMETOOLONG = 36"
definition ENOLCK :: int where "ENOLCK = 37"

subsection \<open>Calls, process state and the answers of the operating system\<close>

datatype event =
    Usage                                \<comment> \<open>\<open>usage()\<close>: the help text on standard output\<close>
  | Stat string                          \<comment> \<open>\<open>stat(path, &s)\<close>\<close>
  | Perror string int                    \<comment> \<open>\<open>perror(prefix)\<close>, with the value of errno it describes\<close>
  | Fprintf string                       \<comment> \<open>\<open>fprintf(stderr, ...)\<close>, with the text written\<close>
  | Sigaction int                        \<comment> \<open>\<open>sigaction(sig, &action, NULL)\<close>\<close>
  | Creat "string option"                \<comment> \<open>\<open>creat(lockfile, S_IWUSR)\<close>\<close>
  | Lockf int                            \<comment> \<open>\<open>lockf(fd, F_TLOCK, 0)\<close>\<close>
  | Fork                                 \<comment> \<open>\<open>fork()\<close>\<close>
  | Close int                            \<comment> \<open>\<open>close(fd)\<close>\<close>
  | Execvp "string option" "string list" \<comment> \<open>\<open>execvp(file, args)\<close>\<close>
  | Waitpid int                          \<comment> \<open>\<open>waitpid(pid, NULL, 0)\<close>\<close>
  | Unlink string                        \<comment> \<open>\<open>unlink(path)\<close>\<close>

datatype handler = Signal_handler
  \<comment> \<open>the one function the program ever installs: \<open>signal_handler\<close>\<close>

datatype outcome =
    Exit int   \<comment> \<open>the process ended with this status\<close>
  | Replaced   \<comment> \<open>\<open>execvp\<close> succeeded: the process now runs the wrapped command\<close>

record state =
  lockfile :: "string option"       \<comment> \<open>\<open>const char *lockfile = NULL\<close>\<close>
  lockfile_fd :: int                \<comment> \<open>\<open>int lockfile_fd = -1\<close>\<close>
  errno :: int
  handlers :: "int \<rightharpoonup> handler"      \<comment> \<open>the signal dispositions set by \<open>sigaction\<close>\<close>
  trace :: "event list"             \<comment> \<open>the calls made so far, oldest first\<close>

record os =
  os_stat :: "string \<Rightarrow> int \<times> int \<times> bool"
    \<comment> \<open>return value, errno on failure, \<open>S_ISDIR(s.st_mode)\<close>\<close>
  os_sigaction :: "int \<Rightarrow> int \<times> int"
  os_creat :: "string option \<Rightarrow> int \<times> int"
  os_lockf :: "int \<Rightarrow> int \<times> int"
  os_fork :: "int \<times> int"
  os_execvp :: "string option \<Rightarrow> string list \<Rightarrow> (int \<times> int) option"
    \<comment> \<open>\<open>None\<close>: the image was replaced and the call never returns\<close>
  os_waitpid :: "int \<Rightarrow> int \<times> int"
  os_stdio :: "event \<Rightarrow> int \<Rightarrow> int"
    \<comment> \<open>the value of errno after the output call recorded as this event, from its value before\<close>
  os_child_status :: int
    \<comment> \<open>the status the child ends with; \<open>waitpid\<close> is given \<open>NULL\<close> for it, so nothing reads it\<close>

definition init_state :: state where
  "init_state = \<lparr>lockfile = None, lockfile_fd = -1, errno = 0, handlers = Map.empty, trace = []\<rparr>"

definition emit :: "event \<Rightarrow> state \<Rightarrow> state" where
  "emit e st = st\<lparr>trace := trace st @ [e]\<rparr>"

definition set_errno :: "int \<times> int \<Rightarrow> state \<Rightarrow> state" where
  \<comment> \<open>a call that returns \<open>-1\<close> leaves its error in errno\<close>
  "set_errno r st = (if fst r = -1 then st\<lparr>errno := snd r\<rparr> else st)"

definition stdio :: "os \<Rightarrow> event \<Rightarrow> state \<Rightarrow> state" where
  \<comment> \<open>an output call of the C library: it is recorded, and it may change errno\<close>
  "stdio os e st = (emit e st)\<lparr>errno := os_stdio os e (errno st)\<rparr>"

definition perror :: "os \<Rightarrow> string \<Rightarrow> state \<Rightarrow> state" where
  \<comment> \<open>\<open>perror(prefix)\<close> describes the errno it finds\<close>
  "perror os prefix st = stdio os (Perror prefix (errno st)) st"

definition fprintf :: "os \<Rightarrow> string \<Rightarrow> state \<Rightarrow> state" where
  \<comment> \<open>\<open>fprintf(stderr, ...)\<close>, with the text written\<close>
  "fprintf os text st = stdio os (Fprintf text) st"

subsection \<open>\<open>usage\<close> and \<open>get_lockdir\<close>\<close>

definition usage :: "os \<Rightarrow> state \<Rightarrow> state" where
  "usage os st = stdio os Usage st"

definition paths :: "string list" where
  "paths = [''/var/lock'', ''/tmp'']"

fun get_lockdir_loop :: "os \<Rightarrow> string list \<Rightarrow> state \<Rightarrow> state \<times> string option" where
  "get_lockdir_loop os [] st = (st, Some ''.'')"
| "get_lockdir_loop os (path # rest) st =
     (case os_stat os path of (result, e, isdir) \<Rightarrow>
        let st1 = set_errno (result, e) (emit (Stat path) st) in
        if result \<noteq> 0 then (perror os ''stat'' st1, None)
        else if isdir then (st1, Some path)
        else get_lockdir_loop os rest st1)"

definition get_lockdir :: "os \<Rightarrow> state \<Rightarrow> state \<times> string option" where
  "get_lockdir os st = get_lockdir_loop os paths st"

subsection \<open>\<open>graceful_exit\<close> and \<open>signal_handler\<close>\<close>

definition graceful_exit :: "int \<Rightarrow> state \<Rightarrow> state \<times> outcome" where
  "graceful_exit status st =
     (let st1 = (case lockfile st of None \<Rightarrow> st | Some p \<Rightarrow> emit (Unlink p) st);
          st2 = (if lockfile_fd st1 \<noteq> -1 then emit (Close (lockfile_fd st1)) st1 else st1)
      in (st2, Exit status))"

definition signal_handler :: "int \<Rightarrow> state \<Rightarrow> state \<times> outcome" where
  "signal_handler signal st = graceful_exit 1 st"

definition deliver :: "int \<Rightarrow> state \<Rightarrow> (state \<times> outcome) option" where
  \<comment> \<open>a signal arrives: the installed handler runs; \<open>None\<close> when the program installed none\<close>
  "deliver signal st =
     (case handlers st signal of
        None \<Rightarrow> None
      | Some Signal_handler \<Rightarrow> Some (signal_handler signal st))"

subsection \<open>\<open>install_signal_handlers\<close>\<close>

definition signals :: "int list" where
  "signals = [SIGHUP, SIGINT, SIGTERM]"

fun install_loop :: "os \<Rightarrow> int list \<Rightarrow> state \<Rightarrow> state \<times> int" where
  "install_loop os [] st = (st, 0)"
| "install_loop os (s # rest) st =
     (let r = os_sigaction os s;
          st1 = set_errno r (emit (Sigaction s) st)
      in if fst r = -1
         then (let st2 = perror os ''sigaction'' st1 in (st2, errno st2))
         else install_loop os rest (st1\<lparr>handlers := (handlers st1)(s \<mapsto> Signal_handler)\<rparr>))"

definition install_signal_handlers :: "os \<Rightarrow> state \<Rightarrow> state \<times> int" where
  "install_signal_handlers os st = install_loop os signals st"

subsection \<open>\<open>main\<close>\<close>

definition basename :: "string \<Rightarrow> string" where
  \<comment> \<open>the GNU \<open>basename\<close> of string.h (\<open>_GNU_SOURCE\<close>, no libgen.h): what follows the last
      slash, the whole string when there is none; the argument is not changed\<close>
  "basename s = rev (takeWhile (\<lambda>c. c \<noteq> CHR ''/'') (rev s))"

definition arg_at :: "string list \<Rightarrow> nat \<Rightarrow> string option" where
  \<comment> \<open>\<open>argv[i]\<close> for \<open>i \<le> argc\<close>: \<open>argv[argc]\<close> is the null pointer that ends the vector\<close>
  "arg_at argv i = (if i < length argv then Some (argv ! i) else None)"

definition newline :: string where
  "newline = [CHR 0x0A]"

definition spawn_and_wait :: "os \<Rightarrow> string list \<Rightarrow> nat \<Rightarrow> state \<Rightarrow> state \<times> outcome" where
  \<comment> \<open>lines 185 to 209\<close>
  "spawn_and_wait os argv cmd_start st =
     (let pid = fst (os_fork os);
          st1 = set_errno (os_fork os) (emit Fork st)
      in if pid = 0 then
           (let st2 = emit (Close (lockfile_fd st1)) st1;
                st3 = emit (Execvp (arg_at argv cmd_start) (drop cmd_start argv)) st2
            in case os_execvp os (arg_at argv cmd_start) (drop cmd_start argv) of
                 None \<Rightarrow> (st3, Replaced)
               | Some r \<Rightarrow>
                   (let st4 = set_errno r st3
                    in if fst r = -1
                       then (let st5 = perror os ''failed to exec program'' st4
                             in (st5, Exit (errno st5)))
                       else graceful_exit 0 st4))
         else if pid > 0 then
           (let r = os_waitpid os pid;
                st2 = set_errno r (emit (Waitpid pid) st1)
            in if fst r = -1
               then (let st3 = perror os ''waitpid'' st2 in graceful_exit (errno st3) st3)
               else graceful_exit 0 st2)
         else (let st2 = perror os ''fork'' st1 in graceful_exit (errno st2) st2))"

definition acquire :: "os \<Rightarrow> string list \<Rightarrow> nat \<Rightarrow> state \<Rightarrow> state \<times> outcome" where
  \<comment> \<open>lines 163 to 183, then the rest of \<open>main\<close>; \<open>lockfile\<close> is set when control gets here\<close>
  "acquire os argv cmd_start st =
     (case install_signal_handlers os st of (st1, result) \<Rightarrow>
        if result \<noteq> 0 then (st1, Exit result)
        else
          (let r = os_creat os (lockfile st1);
               st2 = set_errno r ((emit (Creat (lockfile st1)) st1)\<lparr>lockfile_fd := fst r\<rparr>)
           in if lockfile_fd st2 = -1
              then (let st3 = perror os ''lock file creation failed'' st2
                    in graceful_exit (errno st3) st3)
              else
                (let l = os_lockf os (lockfile_fd st2);
                     st3 = set_errno l (emit (Lockf (lockfile_fd st2)) st2)
                 in if fst l = -1
                    then (let st4 = (if errno st3 = EACCES \<or> errno st3 = EAGAIN
                                     then fprintf os (''Another instance is already running''
                                                      @ newline) st3
                                     else perror os ''cannot take lock'' st3)
                          in graceful_exit (errno st4) st4)
                    else spawn_and_wait os argv cmd_start st3)))"

definition resolve :: "os \<Rightarrow> string list \<Rightarrow> (state \<times> outcome) + (state \<times> nat)" where
  \<comment> \<open>lines 113 to 157: either the process ends (\<open>Inl\<close>), or \<open>lockfile\<close> and \<open>cmd_start\<close>
      are set (\<open>Inr\<close>)\<close>
  "resolve os argv =
     (let argc = length argv; st = init_state
      in if argc < 2 then Inl (usage os st, Exit 1)
         else if argv ! 1 = ''-l'' \<or> argv ! 1 = ''--lockfile'' then
           (if argc < 3 then Inl (usage os st, Exit 1)
            else Inr (st\<lparr>lockfile := Some (argv ! 2)\<rparr>, 3))
         else
           (case get_lockdir os st of
              (st1, None) \<Rightarrow>
                Inl (fprintf os (''Cannot find a temporary lock directory!'' @ newline) st1,
                     Exit 1)
            | (st1, Some lockdir) \<Rightarrow>
                (let program_name = basename (argv ! 1)
                 in if program_name = []
                    then Inl (fprintf os (''Invalid program name '' @ argv ! 1 @ newline) st1,
                              Exit 1)
                    else
                      (let formatted = lockdir @ ''/solo-lock-'' @ program_name;
                           filepath = take (PATH_MAX - 1) formatted;
                           result = length formatted;
                           st2 = (if result \<ge> PATH_MAX
                                  then fprintf os (''Command or lockdir too large; this is likely a ''
                                          @ ''bug. Please report it!'' @ newline) st1
                                  else st1)
                       in Inr (st2\<lparr>lockfile := Some filepath\<rparr>, 1)))))"

definition main :: "os \<Rightarrow> string list \<Rightarrow> state \<times> outcome" where
  "main os argv =
     (case resolve os argv of
        Inl ended \<Rightarrow> ended
      | Inr (st, cmd_start) \<Rightarrow> acquire os argv cmd_start st)"

definition lock_identity :: "os \<Rightarrow> string list \<Rightarrow> string option" where
  \<comment> \<open>the value of \<open>lockfile\<close> when \<open>main\<close> goes on to install the handlers and create the
      file; \<open>None\<close> when \<open>main\<close> has returned before\<close>
  "lock_identity os argv =
     (case resolve os argv of Inl ended \<Rightarrow> None | Inr (st, cmd_start) \<Rightarrow> lockfile st)"

subsection \<open>Sample answers of the operating system\<close>

definition os_ok :: os where
  \<comment> \<open>every call succeeds, both candidate directories exist, output leaves errno as it is, and
      the run is the parent's\<close>
  "os_ok = \<lparr>os_stat = (\<lambda>p. (0, 0, True)), os_sigaction = (\<lambda>s. (0, 0)),
            os_creat = (\<lambda>p. (3, 0)), os_lockf = (\<lambda>fd. (0, 0)), os_fork = (4711, 0),
            os_execvp = (\<lambda>f a. None), os_waitpid = (\<lambda>pid. (pid, 0)),
            os_stdio = (\<lambda>e n. n), os_child_status = 0\<rparr>"

definition os_no_dirs :: os where
  \<comment> \<open>\<open>/var/lock\<close> and \<open>/tmp\<close> both exist and neither is a directory\<close>
  "os_no_dirs = os_ok\<lparr>os_stat := (\<lambda>p. (0, 0, False))\<rparr>"

definition os_contended :: os where
  \<comment> \<open>another process holds the lock\<close>
  "os_contended = os_ok\<lparr>os_lockf := (\<lambda>fd. (-1, EAGAIN))\<rparr>"

definition os_errno_overwritten :: os where
  \<comment> \<open>\<open>lockf\<close> fails for a reason other than contention, and writing the message leaves
      EINVAL in errno\<close>
  "os_errno_overwritten = os_ok\<lparr>os_lockf := (\<lambda>fd. (-1, ENOLCK)), os_stdio := (\<lambda>e n. EINVAL)\<rparr>"

definition os_child :: os where
  \<comment> \<open>the run of the child: \<open>fork\<close> returns 0\<close>
  "os_child = os_ok\<lparr>os_fork := (0, 0)\<rparr>"

definition os_name_too_long :: os where
  \<comment> \<open>the file system rejects the name given to \<open>creat\<close>\<close>
  "os_name_too_long = os_ok\<lparr>os_creat := (\<lambda>p. (-1, ENAMETOOLONG))\<rparr>"

definition long_name :: string where
  \<comment> \<open>a command name of 4076 characters, so that the lock path needs 4096\<close>
  "long_name = replicate 4076 (CHR ''a'')"

subsection \<open>Several invocations and one lock file\<close>

text \<open>
  What \<open>creat\<close>, \<open>lockf\<close>, \<open>unlink\<close> and \<open>close\<close> do to a lock file, by POSIX: a directory maps
  names to inodes; \<open>creat\<close> opens the inode a name stands for, or a new inode when the name is
  free; a record lock belongs to a process and an inode, and \<open>lockf\<close> with \<open>F_TLOCK\<close> fails with
  EAGAIN when another process holds it; \<open>unlink\<close> removes the name and leaves the inode to
  those who have it open; \<open>close\<close> gives up the locks the process holds on the inode. All
  invocations run as one user, so the file of mode \<open>S_IWUSR\<close> can be opened again for writing,
  and each has descriptors 0 to 2 open, so \<open>creat\<close> returns 3. The other calls of \<open>main\<close> do not
  touch names or locks; the child made by \<open>fork\<close> is another process and holds no lock.
\<close>

record kernel =
  k_names :: "(string \<times> nat) list"         \<comment> \<open>directory entries: name and inode\<close>
  k_inodes :: nat                           \<comment> \<open>the number of inodes made so far\<close>
  k_open :: "((nat \<times> int) \<times> nat) list"     \<comment> \<open>open descriptors: (pid, fd) and inode\<close>
  k_locks :: "(nat \<times> nat) list"            \<comment> \<open>record locks: inode and the pid that holds it\<close>

definition boot :: kernel where
  "boot = \<lparr>k_names = [], k_inodes = 0, k_open = [], k_locks = []\<rparr>"

fun kcall :: "nat \<Rightarrow> event \<Rightarrow> kernel \<Rightarrow> (int \<times> int) \<times> kernel" where
  \<comment> \<open>the answer (return value, errno) to a call of process \<open>pid\<close>, and the kernel after it\<close>
  "kcall pid (Creat None) k = ((-1, EFAULT), k)"
| "kcall pid (Creat (Some path)) k =
     (case map_of (k_names k) path of
        Some i \<Rightarrow> ((3, 0), k\<lparr>k_open := ((pid, 3), i) # k_open k\<rparr>)
      | None \<Rightarrow>
          ((3, 0), k\<lparr>k_names := (path, k_inodes k) # k_names k,
                       k_inodes := Suc (k_inodes k),
                       k_open := ((pid, 3), k_inodes k) # k_open k\<rparr>))"
| "kcall pid (Lockf fd) k =
     (case map_of (k_open k) (pid, fd) of
        None \<Rightarrow> ((-1, EBADF), k)
      | Some i \<Rightarrow>
          (case map_of (k_locks k) i of
             None \<Rightarrow> ((0, 0), k\<lparr>k_locks := (i, pid) # k_locks k\<rparr>)
           | Some holder \<Rightarrow> if holder = pid then ((0, 0), k) else ((-1, EAGAIN), k)))"
| "kcall pid (Unlink path) k =
     (case map_of (k_names k) path of
        None \<Rightarrow> ((-1, ENOENT), k)
      | Some i \<Rightarrow> ((0, 0), k\<lparr>k_names := filter (\<lambda>entry. fst entry \<noteq> path) (k_names k)\<rparr>))"
| "kcall pid (Close fd) k =
     (case map_of (k_open k) (pid, fd) of
        None \<Rightarrow> ((-1, EBADF), k)
      | Some i \<Rightarrow>
          ((0, 0), k\<lparr>k_open := filter (\<lambda>entry. fst entry \<noteq> (pid, fd)) (k_open k),
                       k_locks := filter (\<lambda>entry. entry \<noteq> (i, pid)) (k_locks k)\<rparr>))"
| "kcall pid e k = ((0, 0), k)"

fun answered :: "os \<Rightarrow> event \<Rightarrow> int \<times> int \<Rightarrow> bool" where
  \<comment> \<open>the oracle of a process gives the answer the kernel gives; only the answers of \<open>creat\<close>
      and \<open>lockf\<close> are compared, the program ignores those of \<open>unlink\<close> and \<open>close\<close>\<close>
  "answered os (Creat path) a = (os_creat os path = a)"
| "answered os (Lockf fd) a = (os_lockf os fd = a)"
| "answered os e a = True"

fun replay :: "(nat \<Rightarrow> os) \<Rightarrow> (nat \<times> event) list \<Rightarrow> kernel \<Rightarrow> kernel option" where
  \<comment> \<open>a schedule is a list of calls, each with the pid that makes it; it can happen on the
      kernel when every answer the processes' oracles give is the kernel's\<close>
  "replay oracle [] k = Some k"
| "replay oracle ((pid, e) # rest) k =
     (case kcall pid e k of
        (a, k') \<Rightarrow> if answered (oracle pid) e a then replay oracle rest k' else None)"

definition calls_of :: "nat \<Rightarrow> (nat \<times> event) list \<Rightarrow> event list" where
  "calls_of pid schedule = map snd (filter (\<lambda>step. fst step = pid) schedule)"

definition before_wait :: "event list \<Rightarrow> event list" where
  \<comment> \<open>the calls of a run before its \<open>waitpid\<close>: where the parent is while the command runs\<close>
  "before_wait tr = takeWhile (\<lambda>e. case e of Waitpid pid \<Rightarrow> False | _ \<Rightarrow> True) tr"

definition solo_x :: "string list" where
  "solo_x = [''solo'', ''-l'', ''/tmp/x'', ''sleep'', ''100'']"

definition oracle3 :: "nat \<Rightarrow> os" where
  \<comment> \<open>three invocations: the second finds the lock taken\<close>
  "oracle3 pid = (if pid = 2 then os_contended else os_ok)"

definition three_invocations :: "(nat \<times> event) list" where
  \<comment> \<open>process 1 takes the lock and starts the command; processes 2 and 3 start while it
      runs; 2 finds the lock taken, releases and exits; then 3 creates and locks\<close>
  "three_invocations =
     map (Pair 1) [Sigaction SIGHUP, Sigaction SIGINT, Sigaction SIGTERM,
                   Creat (Some ''/tmp/x''), Lockf 3, Fork] @
     map (Pair 2) [Sigaction SIGHUP, Sigaction SIGINT, Sigaction SIGTERM,
                   Creat (Some ''/tmp/x'')] @
     map (Pair 3) [Sigaction SIGHUP, Sigaction SIGINT, Sigaction SIGTERM] @
     map (Pair 2) [Lockf 3, Fprintf (''Another instance is already running'' @ newline),
                   Unlink ''/tmp/x'', Close 3] @
     map (Pair 3) [Creat (Some ''/tmp/x''), Lockf 3, Fork]"

subsection \<open>The order of release in a trace\<close>

fun unlink_before_close :: "bool \<Rightarrow> event list \<Rightarrow> bool" where
  \<comment> \<open>every \<open>close\<close> in the trace comes after an \<open>unlink\<close>; the flag says whether an \<open>unlink\<close>
      has been seen already\<close>
  "unlink_before_close unlinked [] = True"
| "unlink_before_close unlinked (Unlink p # es) = unlink_before_close True es"
| "unlink_before_close unlinked (Close fd # es) = (unlinked \<and> unlink_before_close unlinked es)"
| "unlink_before_close unlinked (e # es) = unlink_before_close unlinked es"

section \<open>Properties\<close>

subsection \<open>Auxiliary facts\<close>

lemma emit_fields [simp]:
  "lockfile (emit e st) = lockfile st"
  "lockfile_fd (emit e st) = lockfile_fd st"
  "errno (emit e st) = errno st"
  "handlers (emit e st) = handlers st"
  "trace (emit e st) = trace st @ [e]"
  by (simp_all add: emit_def)

lemma stdio_fields [simp]:
  "lockfile (stdio os e st) = lockfile st"
  "lockfile_fd (stdio os e st) = lockfile_fd st"
  "errno (stdio os e st) = os_stdio os e (errno st)"
  "handlers (stdio os e st) = handlers st"
  "trace (stdio os e st) = trace st @ [e]"
  by (simp_all add: stdio_def)

lemma perror_fields [simp]:
  "lockfile (perror os s st) = lockfile st"
  "lockfile_fd (perror os s st) = lockfile_fd st"
  "errno (perror os s st) = os_stdio os (Perror s (errno st)) (errno st)"
  "handlers (perror os s st) = handlers st"
  "trace (perror os s st) = trace st @ [Perror s (errno st)]"
  by (simp_all add: perror_def)

lemma fprintf_fields [simp]:
  "lockfile (fprintf os s st) = lockfile st"
  "lockfile_fd (fprintf os s st) = lockfile_fd st"
  "errno (fprintf os s st) = os_stdio os (Fprintf s) (errno st)"
  "handlers (fprintf os s st) = handlers st"
  "trace (fprintf os s st) = trace st @ [Fprintf s]"
  by (simp_all add: fprintf_def)

lemma usage_fields [simp]:
  "lockfile (usage os st) = lockfile st"
  "lockfile_fd (usage os st) = lockfile_fd st"
  "handlers (usage os st) = handlers st"
  "trace (usage os st) = trace st @ [Usage]"
  by (simp_all add: usage_def)

lemma init_state_fields [simp]:
  "lockfile init_state = None"
  "lockfile_fd init_state = -1"
  "errno init_state = 0"
  "handlers init_state = Map.empty"
  "trace init_state = []"
  by (simp_all add: init_state_def)

lemma set_errno_fields [simp]:
  "lockfile (set_errno r st) = lockfile st"
  "lockfile_fd (set_errno r st) = lockfile_fd st"
  "handlers (set_errno r st) = handlers st"
  "trace (set_errno r st) = trace st"
  "errno (set_errno r st) = (if fst r = -1 then snd r else errno st)"
  by (simp_all add: set_errno_def)

lemma graceful_exit_outcome [simp]: "snd (graceful_exit status st) = Exit status"
  by (simp add: graceful_exit_def Let_def)

lemma graceful_exit_trace:
  "trace (fst (graceful_exit status st)) =
     trace st @ (case lockfile st of None \<Rightarrow> [] | Some p \<Rightarrow> [Unlink p])
              @ (if lockfile_fd st = -1 then [] else [Close (lockfile_fd st)])"
  by (simp add: graceful_exit_def Let_def split: option.splits)

lemma graceful_exit_fields [simp]:
  "lockfile (fst (graceful_exit status st)) = lockfile st"
  "lockfile_fd (fst (graceful_exit status st)) = lockfile_fd st"
  "errno (fst (graceful_exit status st)) = errno st"
  "handlers (fst (graceful_exit status st)) = handlers st"
  by (simp_all add: graceful_exit_def Let_def split: option.splits)

subsection \<open>The search for a lock directory\<close>

text \<open>
  C6. The claim says that the fallback \<open>"."\<close> of \<open>get_lockdir\<close> is never returned. It is
  returned when both \<open>stat\<close> calls succeed and neither path is a directory: the loop ends
  and control reaches \<open>return "."\<close>.
\<close>

theorem get_lockdir_fallback_reached:
  "snd (get_lockdir os_no_dirs init_state) = Some ''.''"
  by (simp add: get_lockdir_def paths_def os_no_dirs_def os_ok_def Let_def)

text \<open>
  C6, as the code has it. The candidates are probed in order. A failing \<open>stat\<close> ends the
  search at once with the null pointer, and no later candidate is probed; the first
  candidate that is a directory is returned, and no later candidate is probed; a candidate
  that exists and is not a directory is skipped. The fallback \<open>"."\<close> is returned exactly
  when both \<open>/var/lock\<close> and \<open>/tmp\<close> were probed without error and neither is a directory.
\<close>

theorem get_lockdir_search:
  "(case os_stat os ''/var/lock'' of (r1, e1, d1) \<Rightarrow>
    case os_stat os ''/tmp'' of (r2, e2, d2) \<Rightarrow>
      (r1 \<noteq> 0 \<longrightarrow>
         snd (get_lockdir os st) = None \<and>
         trace (fst (get_lockdir os st)) =
           trace st @ [Stat ''/var/lock'', Perror ''stat'' (if r1 = -1 then e1 else errno st)]) \<and>
      (r1 = 0 \<and> d1 \<longrightarrow>
         snd (get_lockdir os st) = Some ''/var/lock'' \<and>
         trace (fst (get_lockdir os st)) = trace st @ [Stat ''/var/lock'']) \<and>
      (r1 = 0 \<and> \<not> d1 \<and> r2 \<noteq> 0 \<longrightarrow>
         snd (get_lockdir os st) = None \<and>
         trace (fst (get_lockdir os st)) =
           trace st @ [Stat ''/var/lock'', Stat ''/tmp'',
                       Perror ''stat'' (if r2 = -1 then e2 else errno st)]) \<and>
      (r1 = 0 \<and> \<not> d1 \<and> r2 = 0 \<and> d2 \<longrightarrow>
         snd (get_lockdir os st) = Some ''/tmp'' \<and>
         trace (fst (get_lockdir os st)) = trace st @ [Stat ''/var/lock'', Stat ''/tmp'']) \<and>
      (snd (get_lockdir os st) = Some ''.'' \<longleftrightarrow> r1 = 0 \<and> \<not> d1 \<and> r2 = 0 \<and> \<not> d2))"
  by (simp add: get_lockdir_def paths_def Let_def split: prod.splits)

theorem get_lockdir_search_witness:
  "snd (get_lockdir os_ok init_state) = Some ''/var/lock'' \<and>
   trace (fst (get_lockdir os_ok init_state)) = [Stat ''/var/lock''] \<and>
   snd (get_lockdir os_ok init_state) \<noteq> Some ''.'' \<and>
   snd (get_lockdir os_no_dirs init_state) = Some ''.''"
  using get_lockdir_search [of os_ok init_state] get_lockdir_search [of os_no_dirs init_state]
  by (simp add: os_ok_def os_no_dirs_def)

subsection \<open>Signal handlers\<close>

lemma install_loop_fields [simp]:
  "lockfile (fst (install_loop os ss st)) = lockfile st"
  "lockfile_fd (fst (install_loop os ss st)) = lockfile_fd st"
  by (induction ss arbitrary: st; simp add: Let_def)+

lemma install_loop_events:
  "e \<in> set (trace (fst (install_loop os ss st))) \<Longrightarrow>
     e \<in> set (trace st) \<or> (\<exists>s. e = Sigaction s) \<or> (\<exists>s n. e = Perror s n)"
proof (induction ss arbitrary: st)
  case Nil
  then show ?case by simp
next
  case (Cons s ss)
  show ?case
  proof (cases "fst (os_sigaction os s) = -1")
    case True
    with Cons.prems show ?thesis by (auto simp: Let_def)
  next
    case False
    let ?st = "(set_errno (os_sigaction os s) (emit (Sigaction s) st))
                 \<lparr>handlers := (handlers (set_errno (os_sigaction os s) (emit (Sigaction s) st)))
                                (s \<mapsto> Signal_handler)\<rparr>"
    from False Cons.prems have "e \<in> set (trace (fst (install_loop os ss ?st)))"
      by (simp add: Let_def)
    from Cons.IH [OF this] show ?thesis by auto
  qed
qed

text \<open>
  C9. \<open>install_signal_handlers\<close> calls \<open>sigaction\<close> for SIGHUP, SIGINT and SIGTERM, in this
  order, each with \<open>signal_handler\<close>; when the three calls succeed it returns 0 and the three
  handlers are installed. Whenever one of them is delivered, in whatever state the process
  is, the handler runs \<open>graceful_exit(1)\<close>: the release used by every synchronous exit
  (\<open>unlink\<close> of the lock path if one is recorded, then \<open>close\<close> of the descriptor if one is
  open), and the process ends with status 1.
\<close>

theorem signal_handlers_release_and_exit_1:
  assumes "fst (os_sigaction os SIGHUP) \<noteq> -1"
    and "fst (os_sigaction os SIGINT) \<noteq> -1"
    and "fst (os_sigaction os SIGTERM) \<noteq> -1"
    and "handlers st' = handlers (fst (install_signal_handlers os st))"
    and "signal = SIGHUP \<or> signal = SIGINT \<or> signal = SIGTERM"
  shows "snd (install_signal_handlers os st) = 0 \<and>
         trace (fst (install_signal_handlers os st)) =
           trace st @ [Sigaction SIGHUP, Sigaction SIGINT, Sigaction SIGTERM] \<and>
         handlers st' signal = Some Signal_handler \<and>
         deliver signal st' = Some (graceful_exit 1 st') \<and>
         snd (graceful_exit 1 st') = Exit 1 \<and>
         trace (fst (graceful_exit 1 st')) =
           trace st' @ (case lockfile st' of None \<Rightarrow> [] | Some p \<Rightarrow> [Unlink p])
                     @ (if lockfile_fd st' = -1 then [] else [Close (lockfile_fd st')])"
proof -
  have inst: "install_signal_handlers os st =
      (st\<lparr>handlers := (handlers st)(SIGHUP \<mapsto> Signal_handler, SIGINT \<mapsto> Signal_handler,
                                     SIGTERM \<mapsto> Signal_handler),
          trace := trace st @ [Sigaction SIGHUP, Sigaction SIGINT, Sigaction SIGTERM]\<rparr>, 0)"
    using assms(1-3)
    by (simp add: install_signal_handlers_def signals_def Let_def set_errno_def emit_def)
  have h: "handlers st' signal = Some Signal_handler"
    using assms(4,5) by (auto simp: inst)
  have d: "deliver signal st' = Some (graceful_exit 1 st')"
    by (simp add: deliver_def h signal_handler_def)
  show ?thesis
    by (simp add: inst h d graceful_exit_trace)
qed

theorem signal_handlers_release_and_exit_1_witness:
  "snd (install_signal_handlers os_ok (init_state\<lparr>lockfile := Some ''/tmp/x''\<rparr>)) = 0 \<and>
   deliver SIGTERM
     ((fst (install_signal_handlers os_ok (init_state\<lparr>lockfile := Some ''/tmp/x''\<rparr>)))
        \<lparr>lockfile_fd := 3\<rparr>)
   = Some (graceful_exit 1
     ((fst (install_signal_handlers os_ok (init_state\<lparr>lockfile := Some ''/tmp/x''\<rparr>)))
        \<lparr>lockfile_fd := 3\<rparr>)) \<and>
   trace (fst (graceful_exit 1
     ((fst (install_signal_handlers os_ok (init_state\<lparr>lockfile := Some ''/tmp/x''\<rparr>)))
        \<lparr>lockfile_fd := 3\<rparr>)))
   = [Sigaction SIGHUP, Sigaction SIGINT, Sigaction SIGTERM, Unlink ''/tmp/x'', Close 3]"
  using signal_handlers_release_and_exit_1
    [of os_ok
        "(fst (install_signal_handlers os_ok (init_state\<lparr>lockfile := Some ''/tmp/x''\<rparr>)))
           \<lparr>lockfile_fd := 3\<rparr>"
        "init_state\<lparr>lockfile := Some ''/tmp/x''\<rparr>" SIGTERM]
  by (simp add: os_ok_def init_state_def install_signal_handlers_def signals_def Let_def
        set_errno_def emit_def)

subsection \<open>What each stage of \<open>main\<close> can add to the trace\<close>

lemma get_lockdir_loop_fields [simp]:
  "lockfile (fst (get_lockdir_loop os ps st)) = lockfile st"
  "lockfile_fd (fst (get_lockdir_loop os ps st)) = lockfile_fd st"
  "handlers (fst (get_lockdir_loop os ps st)) = handlers st"
  by (induction ps arbitrary: st; simp add: Let_def split: prod.splits)+

lemma get_lockdir_loop_events:
  "e \<in> set (trace (fst (get_lockdir_loop os ps st))) \<Longrightarrow>
     e \<in> set (trace st) \<or> (\<exists>p. e = Stat p) \<or> (\<exists>s n. e = Perror s n)"
proof (induction ps arbitrary: st)
  case Nil
  then show ?case by simp
next
  case (Cons p ps)
  obtain r n d where st: "os_stat os p = (r, n, d)"
    by (cases "os_stat os p") auto
  show ?case
  proof (cases "r = 0 \<and> \<not> d")
    case True
    with st Cons.prems
    have "e \<in> set (trace (fst (get_lockdir_loop os ps (set_errno (r, n) (emit (Stat p) st)))))"
      by (simp add: Let_def)
    from Cons.IH [OF this] show ?thesis by auto
  next
    case False
    with st Cons.prems show ?thesis by (auto simp: Let_def split: if_splits)
  qed
qed

lemma get_lockdir_events:
  assumes "get_lockdir os init_state = (st1, r)" and "e \<in> set (trace st1)"
  shows "(\<exists>p. e = Stat p) \<or> (\<exists>s n. e = Perror s n)"
  using get_lockdir_loop_events [of e os paths init_state] assms
  by (simp add: get_lockdir_def init_state_def)

lemma resolve_ended_events:
  assumes "resolve os argv = Inl (st, out)" and "e \<in> set (trace st)"
  shows "e = Usage \<or> (\<exists>p. e = Stat p) \<or> (\<exists>s n. e = Perror s n) \<or> (\<exists>s. e = Fprintf s)"
proof -
  obtain st1 r where g: "get_lockdir os init_state = (st1, r)"
    by (cases "get_lockdir os init_state") auto
  have ev: "e \<in> set (trace st1) \<Longrightarrow> (\<exists>p. e = Stat p) \<or> (\<exists>s n. e = Perror s n)"
    by (rule get_lockdir_events [OF g])
  from assms ev show ?thesis
    by (auto simp: resolve_def Let_def g split: if_splits option.splits)
qed

lemma resolve_locked_events:
  assumes "resolve os argv = Inr (st, k)" and "e \<in> set (trace st)"
  shows "(\<exists>p. e = Stat p) \<or> (\<exists>s n. e = Perror s n) \<or> (\<exists>s. e = Fprintf s)"
proof -
  obtain st1 r where g: "get_lockdir os init_state = (st1, r)"
    by (cases "get_lockdir os init_state") auto
  have ev: "e \<in> set (trace st1) \<Longrightarrow> (\<exists>p. e = Stat p) \<or> (\<exists>s n. e = Perror s n)"
    by (rule get_lockdir_events [OF g])
  from assms ev show ?thesis
    by (auto simp: resolve_def Let_def g split: if_splits option.splits)
qed

lemma resolve_locked_state:
  assumes "resolve os argv = Inr (st, k)"
  shows "lockfile st \<noteq> None \<and> lockfile_fd st = -1"
proof -
  obtain st1 r where g: "get_lockdir os init_state = (st1, r)"
    by (cases "get_lockdir os init_state") auto
  have "lockfile_fd (fst (get_lockdir os init_state)) = -1"
    by (simp add: get_lockdir_def)
  then have "lockfile_fd st1 = -1"
    by (simp add: g)
  with assms show ?thesis
    by (auto simp: resolve_def Let_def g split: if_splits option.splits)
qed

subsection \<open>Release: unlink, then close\<close>

lemma unlink_before_close_append:
  "unlink_before_close u (xs @ ys) \<longleftrightarrow>
     unlink_before_close u xs \<and> unlink_before_close (u \<or> (\<exists>p. Unlink p \<in> set xs)) ys"
proof (induction xs arbitrary: u)
  case Nil
  then show ?case by simp
next
  case (Cons e xs)
  then show ?case by (cases e) (auto simp: ex_disj_distrib)
qed

lemma unlink_before_close_no_close:
  "(\<And>fd. Close fd \<notin> set xs) \<Longrightarrow> unlink_before_close u xs"
proof (induction xs arbitrary: u)
  case Nil
  then show ?case by simp
next
  case (Cons e xs)
  then show ?case by (cases e) auto
qed

lemma install_signal_handlers_no_close:
  assumes "install_signal_handlers os st = (st1, result)" and "\<And>fd. Close fd \<notin> set (trace st)"
  shows "Close fd \<notin> set (trace st1)"
  using install_loop_events [of "Close fd" os signals st] assms
  by (auto simp: install_signal_handlers_def)

lemma install_signal_handlers_lockfile:
  assumes "install_signal_handlers os st = (st1, result)"
  shows "lockfile st1 = lockfile st" and "lockfile_fd st1 = lockfile_fd st"
proof -
  have "lockfile (fst (install_signal_handlers os st)) = lockfile st"
    and "lockfile_fd (fst (install_signal_handlers os st)) = lockfile_fd st"
    by (simp_all add: install_signal_handlers_def)
  then show "lockfile st1 = lockfile st" and "lockfile_fd st1 = lockfile_fd st"
    by (simp_all add: assms)
qed

lemma acquire_release_order:
  assumes nc: "\<And>fd. Close fd \<notin> set (trace st)"
    and lf: "lockfile st = Some p"
    and parent: "fst (os_fork os) \<noteq> 0"
  shows "unlink_before_close False (trace (fst (acquire os argv k st)))"
proof -
  obtain st1 result where i: "install_signal_handlers os st = (st1, result)"
    by (cases "install_signal_handlers os st") auto
  have nc1: "unlink_before_close u (trace st1)" for u
    by (rule unlink_before_close_no_close) (rule install_signal_handlers_no_close [OF i nc])
  have lf1: "lockfile st1 = Some p"
    using install_signal_handlers_lockfile(1) [OF i] lf by simp
  show ?thesis
    using parent
    by (simp add: acquire_def i Let_def spawn_and_wait_def graceful_exit_trace
          unlink_before_close_append nc1 lf1)
qed

text \<open>
  C2. \<open>graceful_exit\<close> is the only release routine, and it calls \<open>unlink\<close> on the recorded
  lock path before it calls \<open>close\<close> on the descriptor. In every run of \<open>main\<close> other than
  the child's (whose \<open>close\<close> before \<open>execvp\<close> is not a release), for every answer of the
  operating system and every argument vector, each \<open>close\<close> in the trace comes after an
  \<open>unlink\<close>. The signal handler is \<open>graceful_exit(1)\<close>, so a signal that arrives in a state
  with a recorded lock path and a trace in this order leaves a trace in this order.
\<close>

theorem release_unlinks_before_closing:
  "(fst (os_fork os) \<noteq> 0 \<longrightarrow> unlink_before_close False (trace (fst (main os argv)))) \<and>
   trace (fst (graceful_exit status st)) =
     trace st @ (case lockfile st of None \<Rightarrow> [] | Some p \<Rightarrow> [Unlink p])
              @ (if lockfile_fd st = -1 then [] else [Close (lockfile_fd st)]) \<and>
   (lockfile st \<noteq> None \<and> unlink_before_close False (trace st) \<longrightarrow>
      unlink_before_close False (trace (fst (signal_handler signal st))))"
proof (intro conjI impI)
  assume parent: "fst (os_fork os) \<noteq> 0"
  show "unlink_before_close False (trace (fst (main os argv)))"
  proof (cases "resolve os argv")
    case (Inl ended)
    obtain st0 out where e: "ended = (st0, out)"
      by (cases ended) auto
    have "Close fd \<notin> set (trace st0)" for fd
      using resolve_ended_events [of os argv st0 out "Close fd"] Inl e by auto
    then have "unlink_before_close False (trace st0)"
      by (rule unlink_before_close_no_close)
    with Inl e show ?thesis
      by (simp add: main_def)
  next
    case (Inr locked)
    obtain st0 k where l: "locked = (st0, k)"
      by (cases locked) auto
    have nc: "Close fd \<notin> set (trace st0)" for fd
      using resolve_locked_events [of os argv st0 k "Close fd"] Inr l by auto
    obtain p where "lockfile st0 = Some p"
      using resolve_locked_state [of os argv st0 k] Inr l by auto
    from acquire_release_order [OF nc this parent] Inr l show ?thesis
      by (simp add: main_def)
  qed
next
  show "trace (fst (graceful_exit status st)) =
     trace st @ (case lockfile st of None \<Rightarrow> [] | Some p \<Rightarrow> [Unlink p])
              @ (if lockfile_fd st = -1 then [] else [Close (lockfile_fd st)])"
    by (rule graceful_exit_trace)
next
  assume "lockfile st \<noteq> None \<and> unlink_before_close False (trace st)"
  then show "unlink_before_close False (trace (fst (signal_handler signal st)))"
    by (auto simp: signal_handler_def graceful_exit_trace unlink_before_close_append)
qed

theorem release_unlinks_before_closing_witness:
  "fst (os_fork os_ok) \<noteq> 0 \<and>
   unlink_before_close False (trace (fst (main os_ok [''solo'', ''sleep'', ''100'']))) \<and>
   trace (fst (main os_ok [''solo'', ''sleep'', ''100''])) =
     [Stat ''/var/lock'', Sigaction 1, Sigaction 2, Sigaction 15,
      Creat (Some ''/var/lock/solo-lock-sleep''), Lockf 3, Fork, Waitpid 4711,
      Unlink ''/var/lock/solo-lock-sleep'', Close 3] \<and>
   trace (fst (graceful_exit 1 (init_state\<lparr>lockfile := Some ''/tmp/x'', lockfile_fd := 3\<rparr>))) =
     [Unlink ''/tmp/x'', Close 3] \<and>
   unlink_before_close False
     (trace (fst (signal_handler SIGTERM
        (init_state\<lparr>lockfile := Some ''/tmp/x'', lockfile_fd := 3\<rparr>))))"
proof -
  have run: "trace (fst (main os_ok [''solo'', ''sleep'', ''100''])) =
     [Stat ''/var/lock'', Sigaction 1, Sigaction 2, Sigaction 15,
      Creat (Some ''/var/lock/solo-lock-sleep''), Lockf 3, Fork, Waitpid 4711,
      Unlink ''/var/lock/solo-lock-sleep'', Close 3]"
    by (simp add: main_def resolve_def acquire_def spawn_and_wait_def
          install_signal_handlers_def signals_def get_lockdir_def paths_def graceful_exit_def
          emit_def set_errno_def init_state_def os_ok_def basename_def PATH_MAX_def Let_def
          SIGHUP_def SIGINT_def SIGTERM_def)
  have parent: "fst (os_fork os_ok) \<noteq> 0"
    by (simp add: os_ok_def)
  from release_unlinks_before_closing
         [of os_ok "[''solo'', ''sleep'', ''100'']" 1
             "init_state\<lparr>lockfile := Some ''/tmp/x'', lockfile_fd := 3\<rparr>" SIGTERM]
       parent run
  show ?thesis by simp
qed

subsection \<open>Failure to take the lock\<close>

text \<open>
  What \<open>main\<close> does when it reaches \<open>lockf\<close> (a lock path was resolved, the handlers were
  installed, \<open>creat\<close> returned a descriptor) and \<open>lockf\<close> returns \<open>-1\<close> with errno \<open>e\<close>: if \<open>e\<close>
  is EACCES or EAGAIN it writes "Another instance is already running", otherwise it calls
  \<open>perror("cannot take lock")\<close>, which describes \<open>e\<close>; then it releases (\<open>unlink\<close>, \<open>close\<close>)
  and exits with the value of errno that the output call has left.
\<close>

lemma lock_failure_message_and_release:
  assumes "resolve os argv = Inr (st, k)"
    and "lockfile st = Some p"
    and "install_signal_handlers os st = (st1, 0)"
    and "fst (os_creat os (Some p)) = fd"
    and "fd \<noteq> -1"
    and "os_lockf os fd = (-1, e)"
    and "message = (if e = EACCES \<or> e = EAGAIN
                    then Fprintf (''Another instance is already running'' @ newline)
                    else Perror ''cannot take lock'' e)"
  shows "snd (main os argv) = Exit (os_stdio os message e)"
    and "trace (fst (main os argv)) =
           trace st1 @ [Creat (Some p), Lockf fd, message, Unlink p, Close fd]"
proof -
  have lf1: "lockfile st1 = Some p"
    using install_signal_handlers_lockfile(1) [OF assms(3)] assms(2) by simp
  show "snd (main os argv) = Exit (os_stdio os message e)"
    using assms(4-7)
    by (simp add: main_def assms(1,3) acquire_def lf1 Let_def)
  show "trace (fst (main os argv)) =
           trace st1 @ [Creat (Some p), Lockf fd, message, Unlink p, Close fd]"
    using assms(4-7)
    by (simp add: main_def assms(1,3) acquire_def lf1 Let_def graceful_exit_trace)
qed

text \<open>
  C3. The message and the release are as the claim says, the exit status is not: the
  program passes to \<open>graceful_exit\<close> the errno it reads after \<open>perror\<close> or \<open>fprintf\<close> has
  run. Here \<open>lockf\<close> fails with ENOLCK and \<open>perror\<close> leaves EINVAL in errno, as the C library
  does when standard error is open for writing only and has not been used: the program
  describes ENOLCK, releases, and exits with EINVAL.
\<close>

theorem lock_failure_exit_status_overwritten:
  "main os_errno_overwritten [''solo'', ''-l'', ''/tmp/x'', ''sleep'', ''100''] =
     (\<lparr>lockfile = Some ''/tmp/x'', lockfile_fd = 3, errno = EINVAL,
       handlers = [SIGHUP \<mapsto> Signal_handler, SIGINT \<mapsto> Signal_handler,
                   SIGTERM \<mapsto> Signal_handler],
       trace = [Sigaction SIGHUP, Sigaction SIGINT, Sigaction SIGTERM,
                Creat (Some ''/tmp/x''), Lockf 3, Perror ''cannot take lock'' ENOLCK,
                Unlink ''/tmp/x'', Close 3]\<rparr>,
      Exit EINVAL) \<and>
   os_lockf os_errno_overwritten 3 = (-1, ENOLCK) \<and>
   EINVAL \<noteq> ENOLCK"
proof -
  have "resolve os_errno_overwritten [''solo'', ''-l'', ''/tmp/x'', ''sleep'', ''100''] =
          Inr (init_state\<lparr>lockfile := Some ''/tmp/x''\<rparr>, 3)"
    by (simp add: resolve_def)
  then have "main os_errno_overwritten [''solo'', ''-l'', ''/tmp/x'', ''sleep'', ''100''] =
      acquire os_errno_overwritten [''solo'', ''-l'', ''/tmp/x'', ''sleep'', ''100''] 3
        (init_state\<lparr>lockfile := Some ''/tmp/x''\<rparr>)"
    by (simp add: main_def)
  moreover have "acquire os_errno_overwritten [''solo'', ''-l'', ''/tmp/x'', ''sleep'', ''100''] 3
        (init_state\<lparr>lockfile := Some ''/tmp/x''\<rparr>) =
     (\<lparr>lockfile = Some ''/tmp/x'', lockfile_fd = 3, errno = EINVAL,
       handlers = [SIGHUP \<mapsto> Signal_handler, SIGINT \<mapsto> Signal_handler,
                   SIGTERM \<mapsto> Signal_handler],
       trace = [Sigaction SIGHUP, Sigaction SIGINT, Sigaction SIGTERM,
                Creat (Some ''/tmp/x''), Lockf 3, Perror ''cannot take lock'' ENOLCK,
                Unlink ''/tmp/x'', Close 3]\<rparr>,
      Exit EINVAL)"
    by (simp add: acquire_def install_signal_handlers_def signals_def graceful_exit_def
          perror_def fprintf_def stdio_def emit_def set_errno_def init_state_def
          os_errno_overwritten_def os_ok_def Let_def ENOLCK_def EACCES_def EAGAIN_def)
  moreover have "os_lockf os_errno_overwritten 3 = (-1, ENOLCK)"
    by (simp add: os_errno_overwritten_def os_ok_def)
  moreover have "EINVAL \<noteq> ENOLCK"
    by (simp add: EINVAL_def ENOLCK_def)
  ultimately show ?thesis
    by (simp only: simp_thms)
qed

subsection \<open>The exit status after a successful wait\<close>

lemma stdio_child_status [simp]:
  "stdio (os\<lparr>os_child_status := s\<rparr>) e st = stdio os e st"
  "perror (os\<lparr>os_child_status := s\<rparr>) prefix st = perror os prefix st"
  "fprintf (os\<lparr>os_child_status := s\<rparr>) text st = fprintf os text st"
  "usage (os\<lparr>os_child_status := s\<rparr>) st = usage os st"
  by (simp_all add: stdio_def perror_def fprintf_def usage_def)

lemma get_lockdir_loop_child_status:
  "get_lockdir_loop (os\<lparr>os_child_status := s\<rparr>) ps st = get_lockdir_loop os ps st"
  by (induction ps arbitrary: st) (simp_all add: Let_def split: prod.splits)

lemma install_loop_child_status:
  "install_loop (os\<lparr>os_child_status := s\<rparr>) ss st = install_loop os ss st"
  by (induction ss arbitrary: st) (simp_all add: Let_def)

lemma resolve_child_status:
  "resolve (os\<lparr>os_child_status := s\<rparr>) argv = resolve os argv"
  by (simp add: resolve_def get_lockdir_def get_lockdir_loop_child_status Let_def
        cong: if_cong option.case_cong prod.case_cong)

lemma spawn_and_wait_child_status:
  "spawn_and_wait (os\<lparr>os_child_status := s\<rparr>) argv k st = spawn_and_wait os argv k st"
  by (simp add: spawn_and_wait_def Let_def cong: if_cong option.case_cong)

lemma acquire_child_status:
  "acquire (os\<lparr>os_child_status := s\<rparr>) argv k st = acquire os argv k st"
  by (simp add: acquire_def install_signal_handlers_def install_loop_child_status
        spawn_and_wait_child_status Let_def cong: if_cong prod.case_cong)

lemma main_child_status:
  "main (os\<lparr>os_child_status := s\<rparr>) argv = main os argv"
  by (simp add: main_def resolve_child_status acquire_child_status
        cong: sum.case_cong prod.case_cong)

text \<open>
  C4. Suppose \<open>main\<close> reaches \<open>waitpid\<close> in the parent (a lock path was resolved, the
  handlers were installed, \<open>creat\<close> and \<open>lockf\<close> succeeded, \<open>fork\<close> returned a positive pid)
  and \<open>waitpid\<close> does not return \<open>-1\<close>. Then the parent releases (\<open>unlink\<close>, \<open>close\<close>) and
  exits with status 0. The status the child ended with has no influence on the run: \<open>waitpid\<close>
  is called with a null status pointer.
\<close>

theorem successful_wait_exits_0:
  assumes "resolve os argv = Inr (st, k)"
    and "lockfile st = Some p"
    and "install_signal_handlers os st = (st1, 0)"
    and "fst (os_creat os (Some p)) = fd"
    and "fd \<noteq> -1"
    and "fst (os_lockf os fd) \<noteq> -1"
    and "fst (os_fork os) = pid"
    and "pid > 0"
    and "fst (os_waitpid os pid) \<noteq> -1"
  shows "snd (main os argv) = Exit 0 \<and>
         trace (fst (main os argv)) =
           trace st1 @ [Creat (Some p), Lockf fd, Fork, Waitpid pid, Unlink p, Close fd] \<and>
         (\<forall>child_status. main (os\<lparr>os_child_status := child_status\<rparr>) argv = main os argv)"
proof -
  have lf1: "lockfile st1 = Some p"
    using install_signal_handlers_lockfile(1) [OF assms(3)] assms(2) by simp
  have "snd (main os argv) = Exit 0 \<and>
         trace (fst (main os argv)) =
           trace st1 @ [Creat (Some p), Lockf fd, Fork, Waitpid pid, Unlink p, Close fd]"
    using assms(4-9)
    by (simp add: main_def assms(1,3) acquire_def spawn_and_wait_def lf1 Let_def
          graceful_exit_trace)
  then show ?thesis
    by (simp add: main_child_status)
qed

theorem successful_wait_exits_0_witness:
  "snd (main (os_ok\<lparr>os_child_status := 42\<rparr>) [''solo'', ''-l'', ''/tmp/x'', ''false'']) = Exit 0 \<and>
   trace (fst (main (os_ok\<lparr>os_child_status := 42\<rparr>) [''solo'', ''-l'', ''/tmp/x'', ''false''])) =
     [Sigaction SIGHUP, Sigaction SIGINT, Sigaction SIGTERM, Creat (Some ''/tmp/x''), Lockf 3,
      Fork, Waitpid 4711, Unlink ''/tmp/x'', Close 3]"
proof -
  let ?os = "os_ok\<lparr>os_child_status := 42\<rparr>"
  let ?st = "init_state\<lparr>lockfile := Some ''/tmp/x''\<rparr>"
  let ?st1 = "?st\<lparr>handlers := (handlers ?st)(SIGHUP \<mapsto> Signal_handler,
                 SIGINT \<mapsto> Signal_handler, SIGTERM \<mapsto> Signal_handler),
               trace := [Sigaction SIGHUP, Sigaction SIGINT, Sigaction SIGTERM]\<rparr>"
  have 1: "resolve ?os [''solo'', ''-l'', ''/tmp/x'', ''false''] = Inr (?st, 3)"
    by (simp add: resolve_def)
  have 2: "lockfile ?st = Some ''/tmp/x''"
    by simp
  have 3: "install_signal_handlers ?os ?st = (?st1, 0)"
    by (simp add: install_signal_handlers_def signals_def Let_def set_errno_def emit_def
          os_ok_def init_state_def)
  have 4: "fst (os_creat ?os (Some ''/tmp/x'')) = 3"
    by (simp add: os_ok_def)
  have 5: "(3::int) \<noteq> -1"
    by simp
  have 6: "fst (os_lockf ?os 3) \<noteq> -1"
    by (simp add: os_ok_def)
  have 7: "fst (os_fork ?os) = 4711"
    by (simp add: os_ok_def)
  have 8: "(4711::int) > 0"
    by simp
  have 9: "fst (os_waitpid ?os 4711) \<noteq> -1"
    by (simp add: os_ok_def)
  from successful_wait_exits_0 [OF 1 2 3 4 5 6 7 8 9] show ?thesis
    by simp
qed

subsection \<open>The events of a run past the resolution of the lock path\<close>

lemma acquire_events:
  assumes lf: "lockfile st = Some p"
    and e: "e \<in> set (trace (fst (acquire os argv k st)))"
  shows "e \<in> set (trace st) \<or> (\<exists>s. e = Sigaction s) \<or> (\<exists>s n. e = Perror s n) \<or>
         (\<exists>s. e = Fprintf s) \<or> e = Creat (Some p) \<or> (\<exists>fd. e = Lockf fd) \<or> e = Fork \<or>
         (\<exists>fd. e = Close fd) \<or> e = Execvp (arg_at argv k) (drop k argv) \<or>
         (\<exists>pid. e = Waitpid pid) \<or> e = Unlink p"
proof -
  obtain st1 result where i: "install_signal_handlers os st = (st1, result)"
    by (cases "install_signal_handlers os st") auto
  have ev: "e \<in> set (trace st1) \<Longrightarrow>
              e \<in> set (trace st) \<or> (\<exists>s. e = Sigaction s) \<or> (\<exists>s n. e = Perror s n)"
    using install_loop_events [of e os signals st] i
    by (simp add: install_signal_handlers_def)
  have lf1: "lockfile st1 = Some p"
    using install_signal_handlers_lockfile(1) [OF i] lf by simp
  from e ev show ?thesis
    by (auto simp: acquire_def i lf1 Let_def spawn_and_wait_def graceful_exit_trace
          split: if_splits option.splits)
qed

lemma main_ended_events:
  assumes "resolve os argv = Inl ended" and "e \<in> set (trace (fst (main os argv)))"
  shows "e = Usage \<or> (\<exists>p. e = Stat p) \<or> (\<exists>s n. e = Perror s n) \<or> (\<exists>s. e = Fprintf s)"
  using resolve_ended_events [of os argv "fst ended" "snd ended" e] assms
  by (simp add: main_def)

lemma main_locked_events:
  assumes r: "resolve os argv = Inr (st, k)" and lf: "lockfile st = Some p"
    and e: "e \<in> set (trace (fst (main os argv)))"
  shows "(\<exists>q. e = Stat q) \<or> (\<exists>s. e = Sigaction s) \<or> (\<exists>s n. e = Perror s n) \<or>
         (\<exists>s. e = Fprintf s) \<or> e = Creat (Some p) \<or> (\<exists>fd. e = Lockf fd) \<or> e = Fork \<or>
         (\<exists>fd. e = Close fd) \<or> e = Execvp (arg_at argv k) (drop k argv) \<or>
         (\<exists>pid. e = Waitpid pid) \<or> e = Unlink p"
proof -
  from e r have "e \<in> set (trace (fst (acquire os argv k st)))"
    by (simp add: main_def)
  from acquire_events [OF lf this] resolve_locked_events [OF r, of e]
  show ?thesis by blast
qed

subsection \<open>The lock path given on the command line\<close>

text \<open>
  C7. When \<open>argv[1]\<close> is \<open>-l\<close> or \<open>--lockfile\<close> and a LOCKFILE follows, \<open>lockfile\<close> is set to
  \<open>argv[2]\<close> as it stands and the command starts at \<open>argv[3]\<close>: nothing has been probed
  (the trace is still empty), whatever the command is. In the whole run no \<open>stat\<close> is made,
  \<open>creat\<close> and \<open>unlink\<close> are only ever called on LOCKFILE, and \<open>execvp\<close> only on the
  arguments after it. When \<open>argv[1]\<close> is neither spelling, the command starts at \<open>argv[1]\<close>:
  the later arguments do not enter the resolution of the lock path, and all of them,
  \<open>-l\<close> included, are handed to \<open>execvp\<close>.
\<close>

theorem explicit_lockfile_used_verbatim:
  "(flag = ''-l'' \<or> flag = ''--lockfile'' \<longrightarrow>
      resolve os (prog # flag # lf # rest) = Inr (init_state\<lparr>lockfile := Some lf\<rparr>, 3) \<and>
      lock_identity os (prog # flag # lf # rest) = Some lf \<and>
      (\<forall>e \<in> set (trace (fst (main os (prog # flag # lf # rest)))).
         (\<forall>q. e \<noteq> Stat q) \<and>
         (\<forall>q. e = Creat q \<longrightarrow> q = Some lf) \<and>
         (\<forall>q. e = Unlink q \<longrightarrow> q = lf) \<and>
         (\<forall>f a. e = Execvp f a \<longrightarrow> f = arg_at rest 0 \<and> a = rest))) \<and>
   (cmd \<noteq> ''-l'' \<and> cmd \<noteq> ''--lockfile'' \<longrightarrow>
      resolve os (prog # cmd # rest) = resolve os [prog, cmd] \<and>
      (\<forall>st k. resolve os (prog # cmd # rest) = Inr (st, k) \<longrightarrow> k = 1) \<and>
      (\<forall>f a. Execvp f a \<in> set (trace (fst (main os (prog # cmd # rest)))) \<longrightarrow>
         f = Some cmd \<and> a = cmd # rest))"
proof (intro conjI impI)
  assume flag: "flag = ''-l'' \<or> flag = ''--lockfile''"
  let ?argv = "prog # flag # lf # rest"
  show r: "resolve os ?argv = Inr (init_state\<lparr>lockfile := Some lf\<rparr>, 3)"
    using flag by (auto simp: resolve_def)
  then show "lock_identity os ?argv = Some lf"
    by (simp add: lock_identity_def)
  have a: "arg_at ?argv 3 = arg_at rest 0" "drop 3 ?argv = rest"
    by (simp_all add: arg_at_def)
  show "\<forall>e \<in> set (trace (fst (main os ?argv))).
         (\<forall>q. e \<noteq> Stat q) \<and>
         (\<forall>q. e = Creat q \<longrightarrow> q = Some lf) \<and>
         (\<forall>q. e = Unlink q \<longrightarrow> q = lf) \<and>
         (\<forall>f a. e = Execvp f a \<longrightarrow> f = arg_at rest 0 \<and> a = rest)"
  proof
    fix e
    assume e: "e \<in> set (trace (fst (main os ?argv)))"
    then have "e \<in> set (trace (fst (acquire os ?argv 3 (init_state\<lparr>lockfile := Some lf\<rparr>))))"
      by (simp add: main_def r)
    from acquire_events [OF _ this, of lf]
    show "(\<forall>q. e \<noteq> Stat q) \<and>
         (\<forall>q. e = Creat q \<longrightarrow> q = Some lf) \<and>
         (\<forall>q. e = Unlink q \<longrightarrow> q = lf) \<and>
         (\<forall>f a. e = Execvp f a \<longrightarrow> f = arg_at rest 0 \<and> a = rest)"
      by (auto simp: a)
  qed
next
  assume cmd: "cmd \<noteq> ''-l'' \<and> cmd \<noteq> ''--lockfile''"
  let ?argv = "prog # cmd # rest"
  show "resolve os ?argv = resolve os [prog, cmd]"
    using cmd by (simp add: resolve_def Let_def cong: prod.case_cong option.case_cong if_cong)
  show k: "\<forall>st k. resolve os ?argv = Inr (st, k) \<longrightarrow> k = 1"
    using cmd by (auto simp: resolve_def Let_def split: prod.splits option.splits if_splits)
  show "\<forall>f a. Execvp f a \<in> set (trace (fst (main os ?argv))) \<longrightarrow> f = Some cmd \<and> a = cmd # rest"
  proof (intro allI impI)
    fix f a
    assume e: "Execvp f a \<in> set (trace (fst (main os ?argv)))"
    show "f = Some cmd \<and> a = cmd # rest"
    proof (cases "resolve os ?argv")
      case (Inl ended)
      from main_ended_events [OF Inl e] show ?thesis by simp
    next
      case (Inr locked)
      obtain st n where l: "locked = (st, n)"
        by (cases locked) auto
      with Inr k have n: "n = 1" by simp
      obtain p where p: "lockfile st = Some p"
        using resolve_locked_state [of os ?argv st n] Inr l by auto
      from main_locked_events [OF _ p e, of n] Inr l n show ?thesis
        by (simp add: arg_at_def)
    qed
  qed
qed

theorem explicit_lockfile_used_verbatim_witness:
  "lock_identity os_ok [''solo'', ''--lockfile'', ''my.lock'', ''-l'', ''x''] = Some ''my.lock'' \<and>
   resolve os_ok [''solo'', ''grep'', ''-l'', ''x''] = resolve os_ok [''solo'', ''grep'']"
  using explicit_lockfile_used_verbatim
    [of "''--lockfile''" os_ok "''solo''" "''my.lock''" "[''-l'', ''x'']" "''grep''"]
  by simp

subsection \<open>The lock path derived from the command\<close>

lemma basename_no_slash:
  assumes "CHR ''/'' \<notin> set s"
  shows "basename s = s"
proof -
  from assms have "takeWhile (\<lambda>c. c \<noteq> CHR ''/'') (rev s) = rev s"
    by (auto simp: takeWhile_eq_all_conv)
  then show ?thesis
    unfolding basename_def by (simp only: rev_rev_ident)
qed

lemma basename_long_name: "basename long_name = long_name"
  by (simp add: basename_no_slash long_name_def)

lemma length_long_name: "length long_name = 4076"
  by (simp add: long_name_def)

lemma long_name_not_flag: "long_name \<noteq> ''-l''" "long_name \<noteq> ''--lockfile''" "long_name \<noteq> []"
proof -
  have "length long_name \<noteq> length ''-l''" "length long_name \<noteq> length ''--lockfile''"
    "length long_name \<noteq> length ([] :: string)"
    by (simp_all add: length_long_name)
  then show "long_name \<noteq> ''-l''" "long_name \<noteq> ''--lockfile''" "long_name \<noteq> []"
    by (metis (no_types))+
qed

lemma resolve_long_name:
  "resolve os_ok [''solo'', long_name] =
     Inr (\<lparr>lockfile = Some (take 4095 (''/var/lock/solo-lock-'' @ long_name)), lockfile_fd = -1,
           errno = 0, handlers = Map.empty,
           trace = [Stat ''/var/lock'',
                    Fprintf (''Command or lockdir too large; this is likely a bug. Please report it!''
                             @ newline)]\<rparr>, 1)"
  by (simp add: resolve_def get_lockdir_def paths_def os_ok_def Let_def PATH_MAX_def
        basename_long_name length_long_name long_name_not_flag init_state_def emit_def
        set_errno_def fprintf_def stdio_def)

lemma resolve_name_too_long:
  "resolve os_name_too_long [''solo'', long_name] = resolve os_ok [''solo'', long_name]"
  by (simp add: os_name_too_long_def resolve_def get_lockdir_def paths_def os_ok_def Let_def
        long_name_not_flag usage_def fprintf_def perror_def stdio_def)

text \<open>
  C8. The claim gives the derived path as \<open>D/solo-lock-foo\<close> for every command name. For a
  name of 4076 characters the path needs 4096 characters; \<open>snprintf\<close> keeps the first 4095,
  and that shorter string is what \<open>lockfile\<close> is set to.
\<close>

theorem derived_identity_truncated:
  "snd (get_lockdir os_ok init_state) = Some ''/var/lock'' \<and>
   basename long_name = long_name \<and>
   lock_identity os_ok [''solo'', long_name] \<noteq> Some (''/var/lock'' @ ''/solo-lock-'' @ long_name)"
proof -
  have "length (take 4095 (''/var/lock/solo-lock-'' @ long_name)) \<noteq>
        length (''/var/lock'' @ ''/solo-lock-'' @ long_name)"
    by (simp add: length_long_name)
  then have "take 4095 (''/var/lock/solo-lock-'' @ long_name) \<noteq>
             ''/var/lock'' @ ''/solo-lock-'' @ long_name"
    by (metis (no_types))
  then have "lock_identity os_ok [''solo'', long_name] \<noteq>
             Some (''/var/lock'' @ ''/solo-lock-'' @ long_name)"
    by (simp add: lock_identity_def resolve_long_name)
  moreover have "snd (get_lockdir os_ok init_state) = Some ''/var/lock''"
    by (simp add: get_lockdir_def paths_def os_ok_def Let_def)
  ultimately show ?thesis
    using basename_long_name by (simp only: simp_thms)
qed

text \<open>
  C8, as the code has it. Let the first argument be a command \<open>cmd\<close> (not the lockfile
  flag) and let \<open>get_lockdir\<close> return the directory \<open>D\<close>. If the basename of \<open>cmd\<close> is not
  empty and \<open>D/solo-lock-basename\<close> is shorter than PATH_MAX, then \<open>lockfile\<close> is set to exactly
  that path, the command starts at \<open>argv[1]\<close>, and \<open>creat\<close> and \<open>unlink\<close> are only ever called
  on that path. If the basename is empty, \<open>main\<close> reports the invalid name and returns 1:
  the message is the last call it makes, and there is no call of \<open>creat\<close>.
\<close>

theorem derived_lock_identity:
  assumes "cmd \<noteq> ''-l''" and "cmd \<noteq> ''--lockfile''"
    and "get_lockdir os init_state = (st1, Some D)"
  shows "(basename cmd \<noteq> [] \<and> length (D @ ''/solo-lock-'' @ basename cmd) < PATH_MAX \<longrightarrow>
            resolve os (prog # cmd # rest) =
              Inr (st1\<lparr>lockfile := Some (D @ ''/solo-lock-'' @ basename cmd)\<rparr>, 1) \<and>
            lock_identity os (prog # cmd # rest) = Some (D @ ''/solo-lock-'' @ basename cmd) \<and>
            (\<forall>e \<in> set (trace (fst (main os (prog # cmd # rest)))).
               (\<forall>q. e = Creat q \<longrightarrow> q = Some (D @ ''/solo-lock-'' @ basename cmd)) \<and>
               (\<forall>q. e = Unlink q \<longrightarrow> q = D @ ''/solo-lock-'' @ basename cmd))) \<and>
         (basename cmd = [] \<longrightarrow>
            main os (prog # cmd # rest) =
              (fprintf os (''Invalid program name '' @ cmd @ newline) st1, Exit 1) \<and>
            trace (fst (main os (prog # cmd # rest))) =
              trace st1 @ [Fprintf (''Invalid program name '' @ cmd @ newline)] \<and>
            lock_identity os (prog # cmd # rest) = None \<and>
            (\<forall>q. Creat q \<notin> set (trace (fst (main os (prog # cmd # rest))))))"
proof (intro conjI impI)
  let ?argv = "prog # cmd # rest"
  let ?path = "D @ ''/solo-lock-'' @ basename cmd"
  assume fits: "basename cmd \<noteq> [] \<and> length ?path < PATH_MAX"
  then have "length ?path \<le> PATH_MAX - 1"
    by arith
  then have t: "take (PATH_MAX - 1) ?path = ?path"
    by (rule take_all)
  show r: "resolve os ?argv = Inr (st1\<lparr>lockfile := Some ?path\<rparr>, 1)"
    using assms fits t by (simp add: resolve_def Let_def del: length_append)
  then show "lock_identity os ?argv = Some ?path"
    by (simp add: lock_identity_def)
  show "\<forall>e \<in> set (trace (fst (main os ?argv))).
          (\<forall>q. e = Creat q \<longrightarrow> q = Some ?path) \<and> (\<forall>q. e = Unlink q \<longrightarrow> q = ?path)"
  proof
    fix e
    assume "e \<in> set (trace (fst (main os ?argv)))"
    from main_locked_events [OF r _ this, of ?path]
    show "(\<forall>q. e = Creat q \<longrightarrow> q = Some ?path) \<and> (\<forall>q. e = Unlink q \<longrightarrow> q = ?path)"
      by auto
  qed
next
  let ?argv = "prog # cmd # rest"
  assume empty: "basename cmd = []"
  have r: "resolve os ?argv =
             Inl (fprintf os (''Invalid program name '' @ cmd @ newline) st1, Exit 1)"
    using assms empty by (simp add: resolve_def Let_def)
  then show m: "main os ?argv =
             (fprintf os (''Invalid program name '' @ cmd @ newline) st1, Exit 1)"
    by (simp add: main_def)
  then show "trace (fst (main os ?argv)) =
             trace st1 @ [Fprintf (''Invalid program name '' @ cmd @ newline)]"
    by simp
  from r show "lock_identity os ?argv = None"
    by (simp add: lock_identity_def)
  show "\<forall>q. Creat q \<notin> set (trace (fst (main os ?argv)))"
  proof (intro allI notI)
    fix q
    assume "Creat q \<in> set (trace (fst (main os ?argv)))"
    from main_ended_events [OF r this] show False by simp
  qed
qed

theorem derived_lock_identity_witness:
  "lock_identity os_ok [''solo'', ''/usr/bin/sleep'', ''100''] = Some ''/var/lock/solo-lock-sleep'' \<and>
   main os_ok [''solo'', ''/usr/bin/'', ''100''] =
     (emit (Fprintf (''Invalid program name /usr/bin/'' @ newline))
        (emit (Stat ''/var/lock'') init_state), Exit 1)"
proof -
  have g: "get_lockdir os_ok init_state = (emit (Stat ''/var/lock'') init_state, Some ''/var/lock'')"
    by (simp add: get_lockdir_def paths_def os_ok_def Let_def set_errno_def)
  have 1: "''/usr/bin/sleep'' \<noteq> ''-l''" "''/usr/bin/sleep'' \<noteq> ''--lockfile''"
    and 2: "''/usr/bin/'' \<noteq> ''-l''" "''/usr/bin/'' \<noteq> ''--lockfile''"
    by simp_all
  have out: "fprintf os_ok msg st = emit (Fprintf msg) st" for msg st
    by (simp add: fprintf_def stdio_def os_ok_def emit_def)
  from derived_lock_identity [OF 1 g, of "''solo''" "[''100'']"]
       derived_lock_identity [OF 2 g, of "''solo''" "[''100'']"]
  show ?thesis
    by (simp add: basename_def PATH_MAX_def out)
qed

subsection \<open>A lock path that does not fit\<close>

text \<open>
  C5. With a command name of 4076 characters and \<open>/var/lock\<close> a directory, the formatted
  path has 4096 characters and does not fit \<open>filepath[PATH_MAX]\<close>. \<open>main\<close> writes
  "Command or lockdir too large" and goes on with the first 4095 characters as the lock
  path. When every call succeeds it creates, locks and later unlinks that file, runs the
  command and exits with 0. When the file system rejects the name, \<open>creat\<close> has still been
  called on that path, and \<open>main\<close> unlinks it and exits with the errno of \<open>creat\<close>.
\<close>

theorem too_long_path_is_truncated_and_used:
  "PATH_MAX \<le> length (''/var/lock'' @ ''/solo-lock-'' @ basename long_name) \<and>
   main os_ok [''solo'', long_name] =
     (\<lparr>lockfile = Some (take 4095 (''/var/lock/solo-lock-'' @ long_name)), lockfile_fd = 3,
       errno = 0,
       handlers = [SIGHUP \<mapsto> Signal_handler, SIGINT \<mapsto> Signal_handler,
                   SIGTERM \<mapsto> Signal_handler],
       trace = [Stat ''/var/lock'',
                Fprintf (''Command or lockdir too large; this is likely a bug. Please report it!''
                         @ newline),
                Sigaction SIGHUP, Sigaction SIGINT, Sigaction SIGTERM,
                Creat (Some (take 4095 (''/var/lock/solo-lock-'' @ long_name))),
                Lockf 3, Fork, Waitpid 4711,
                Unlink (take 4095 (''/var/lock/solo-lock-'' @ long_name)), Close 3]\<rparr>,
      Exit 0) \<and>
   main os_name_too_long [''solo'', long_name] =
     (\<lparr>lockfile = Some (take 4095 (''/var/lock/solo-lock-'' @ long_name)), lockfile_fd = -1,
       errno = ENAMETOOLONG,
       handlers = [SIGHUP \<mapsto> Signal_handler, SIGINT \<mapsto> Signal_handler,
                   SIGTERM \<mapsto> Signal_handler],
       trace = [Stat ''/var/lock'',
                Fprintf (''Command or lockdir too large; this is likely a bug. Please report it!''
                         @ newline),
                Sigaction SIGHUP, Sigaction SIGINT, Sigaction SIGTERM,
                Creat (Some (take 4095 (''/var/lock/solo-lock-'' @ long_name))),
                Perror ''lock file creation failed'' ENAMETOOLONG,
                Unlink (take 4095 (''/var/lock/solo-lock-'' @ long_name))]\<rparr>,
      Exit ENAMETOOLONG)"
proof -
  let ?st = "\<lparr>lockfile = Some (take 4095 (''/var/lock/solo-lock-'' @ long_name)),
              lockfile_fd = -1, errno = 0, handlers = Map.empty,
              trace = [Stat ''/var/lock'',
                Fprintf (''Command or lockdir too large; this is likely a bug. Please report it!''
                         @ newline)]\<rparr>"
  have "PATH_MAX \<le> length (''/var/lock'' @ ''/solo-lock-'' @ basename long_name)"
    by (simp add: basename_long_name length_long_name PATH_MAX_def)
  moreover have "main os_ok [''solo'', long_name] = acquire os_ok [''solo'', long_name] 1 ?st"
    by (simp add: main_def resolve_long_name)
  moreover have "acquire os_ok [''solo'', long_name] 1 ?st =
     (\<lparr>lockfile = Some (take 4095 (''/var/lock/solo-lock-'' @ long_name)), lockfile_fd = 3,
       errno = 0,
       handlers = [SIGHUP \<mapsto> Signal_handler, SIGINT \<mapsto> Signal_handler,
                   SIGTERM \<mapsto> Signal_handler],
       trace = [Stat ''/var/lock'',
                Fprintf (''Command or lockdir too large; this is likely a bug. Please report it!''
                         @ newline),
                Sigaction SIGHUP, Sigaction SIGINT, Sigaction SIGTERM,
                Creat (Some (take 4095 (''/var/lock/solo-lock-'' @ long_name))),
                Lockf 3, Fork, Waitpid 4711,
                Unlink (take 4095 (''/var/lock/solo-lock-'' @ long_name)), Close 3]\<rparr>,
      Exit 0)"
    by (simp add: acquire_def spawn_and_wait_def install_signal_handlers_def signals_def
          graceful_exit_def emit_def set_errno_def os_ok_def Let_def)
  moreover have "main os_name_too_long [''solo'', long_name] =
      acquire os_name_too_long [''solo'', long_name] 1 ?st"
    by (simp add: main_def resolve_name_too_long resolve_long_name)
  moreover have "acquire os_name_too_long [''solo'', long_name] 1 ?st =
     (\<lparr>lockfile = Some (take 4095 (''/var/lock/solo-lock-'' @ long_name)), lockfile_fd = -1,
       errno = ENAMETOOLONG,
       handlers = [SIGHUP \<mapsto> Signal_handler, SIGINT \<mapsto> Signal_handler,
                   SIGTERM \<mapsto> Signal_handler],
       trace = [Stat ''/var/lock'',
                Fprintf (''Command or lockdir too large; this is likely a bug. Please report it!''
                         @ newline),
                Sigaction SIGHUP, Sigaction SIGINT, Sigaction SIGTERM,
                Creat (Some (take 4095 (''/var/lock/solo-lock-'' @ long_name))),
                Perror ''lock file creation failed'' ENAMETOOLONG,
                Unlink (take 4095 (''/var/lock/solo-lock-'' @ long_name))]\<rparr>,
      Exit ENAMETOOLONG)"
    by (simp add: acquire_def install_signal_handlers_def signals_def
          graceful_exit_def emit_def set_errno_def os_name_too_long_def os_ok_def Let_def)
  ultimately show ?thesis
    by (simp only: simp_thms)
qed

subsection \<open>The lockfile flag without a command\<close>

text \<open>
  C10. With exactly three arguments, \<open>-l\<close> or \<open>--lockfile\<close> and a LOCKFILE, the check
  \<open>argc < 3\<close> does not fire: no usage text is printed, \<open>lockfile\<close> is LOCKFILE and \<open>cmd_start\<close>
  is 3, which is \<open>argc\<close>. When the handlers are installed and \<open>creat\<close>, \<open>lockf\<close> succeed, the
  file is created and locked and the process forks; the child closes the descriptor and
  calls \<open>execvp\<close> with \<open>argv[3]\<close>, the null pointer that ends \<open>argv\<close>, as the program and an
  empty argument vector.
\<close>

theorem lockfile_flag_without_command:
  assumes "flag = ''-l'' \<or> flag = ''--lockfile''"
    and "install_signal_handlers os (init_state\<lparr>lockfile := Some lf\<rparr>) = (st1, 0)"
    and "fst (os_creat os (Some lf)) = fd"
    and "fd \<noteq> -1"
    and "fst (os_lockf os fd) \<noteq> -1"
    and "fst (os_fork os) = 0"
  shows "resolve os [prog, flag, lf] = Inr (init_state\<lparr>lockfile := Some lf\<rparr>, 3) \<and>
         Usage \<notin> set (trace (fst (main os [prog, flag, lf]))) \<and>
         (\<exists>after. trace (fst (main os [prog, flag, lf])) =
            trace st1 @ [Creat (Some lf), Lockf fd, Fork, Close fd, Execvp None []] @ after)"
proof -
  let ?argv = "[prog, flag, lf]"
  let ?st = "init_state\<lparr>lockfile := Some lf\<rparr>"
  have r: "resolve os ?argv = Inr (?st, 3)"
    using assms(1) by (auto simp: resolve_def)
  have lf1: "lockfile st1 = Some lf"
    using install_signal_handlers_lockfile(1) [OF assms(2)] by simp
  have nu: "Usage \<notin> set (trace (fst (main os ?argv)))"
  proof
    assume "Usage \<in> set (trace (fst (main os ?argv)))"
    from main_locked_events [OF r _ this, of lf] show False
      by simp
  qed
  have "\<exists>after. trace (fst (acquire os ?argv 3 ?st)) =
          trace st1 @ [Creat (Some lf), Lockf fd, Fork, Close fd, Execvp None []] @ after"
    using assms(3-6)
    by (cases "os_execvp os None []")
       (simp_all add: acquire_def assms(2) lf1 Let_def spawn_and_wait_def arg_at_def
          graceful_exit_trace)
  with r nu show ?thesis
    by (simp add: main_def)
qed

theorem lockfile_flag_without_command_witness:
  "Usage \<notin> set (trace (fst (main os_child [''solo'', ''-l'', ''/tmp/x'']))) \<and>
   (\<exists>after. trace (fst (main os_child [''solo'', ''-l'', ''/tmp/x''])) =
      [Sigaction SIGHUP, Sigaction SIGINT, Sigaction SIGTERM, Creat (Some ''/tmp/x''), Lockf 3,
       Fork, Close 3, Execvp None []] @ after)"
proof -
  let ?st = "init_state\<lparr>lockfile := Some ''/tmp/x''\<rparr>"
  let ?st1 = "?st\<lparr>handlers := (handlers ?st)(SIGHUP \<mapsto> Signal_handler,
                 SIGINT \<mapsto> Signal_handler, SIGTERM \<mapsto> Signal_handler),
               trace := [Sigaction SIGHUP, Sigaction SIGINT, Sigaction SIGTERM]\<rparr>"
  have 1: "''-l'' = ''-l'' \<or> ''-l'' = ''--lockfile''"
    by simp
  have 2: "install_signal_handlers os_child ?st = (?st1, 0)"
    by (simp add: install_signal_handlers_def signals_def Let_def set_errno_def emit_def
          os_child_def os_ok_def init_state_def)
  have 3: "fst (os_creat os_child (Some ''/tmp/x'')) = 3"
    by (simp add: os_child_def os_ok_def)
  have 4: "(3::int) \<noteq> -1"
    by simp
  have 5: "fst (os_lockf os_child 3) \<noteq> -1"
    by (simp add: os_child_def os_ok_def)
  have 6: "fst (os_fork os_child) = 0"
    by (simp add: os_child_def os_ok_def)
  from lockfile_flag_without_command [OF 1 2 3 4 5 6, of "''solo''"] show ?thesis
    by simp
qed

subsection \<open>Three invocations on one lock path\<close>

text \<open>
  C1. Three invocations of \<open>solo -l /tmp/x sleep 100\<close>. The schedule interleaves the calls
  that \<open>main\<close> makes in each of them (for 1 and 3 up to the \<open>waitpid\<close> they block in, for 2 the
  whole run), and the kernel gives each \<open>creat\<close> and \<open>lockf\<close> the answer the run got. Process 2
  finds the lock taken and exits with EAGAIN, and its release unlinks \<open>/tmp/x\<close>, the file
  process 1 has locked. Process 3 therefore creates a new file under the same name and
  locks it. At the end processes 1 and 3 both hold a lock and both have started the
  command: two acquisitions succeeded, and only one invocation met contention.
\<close>

theorem three_invocations_two_lock_holders:
  "lock_identity (oracle3 1) solo_x = Some ''/tmp/x'' \<and>
   lock_identity (oracle3 2) solo_x = Some ''/tmp/x'' \<and>
   lock_identity (oracle3 3) solo_x = Some ''/tmp/x'' \<and>
   calls_of 1 three_invocations = before_wait (trace (fst (main (oracle3 1) solo_x))) \<and>
   calls_of 2 three_invocations = trace (fst (main (oracle3 2) solo_x)) \<and>
   snd (main (oracle3 2) solo_x) = Exit EAGAIN \<and>
   calls_of 3 three_invocations = before_wait (trace (fst (main (oracle3 3) solo_x))) \<and>
   replay oracle3 three_invocations boot =
     Some \<lparr>k_names = [(''/tmp/x'', 1)], k_inodes = 2,
           k_open = [((3, 3), 1), ((1, 3), 0)],
           k_locks = [(1, 3), (0, 1)]\<rparr>"
proof -
  have r: "resolve os solo_x = Inr (init_state\<lparr>lockfile := Some ''/tmp/x''\<rparr>, 3)" for os
    by (simp add: resolve_def solo_x_def)
  have ok: "trace (fst (main os_ok solo_x)) =
      [Sigaction SIGHUP, Sigaction SIGINT, Sigaction SIGTERM, Creat (Some ''/tmp/x''), Lockf 3,
       Fork, Waitpid 4711, Unlink ''/tmp/x'', Close 3]"
    by (simp add: main_def r acquire_def spawn_and_wait_def install_signal_handlers_def
          signals_def graceful_exit_def emit_def set_errno_def init_state_def os_ok_def Let_def)
  have contended: "main os_contended solo_x =
      (\<lparr>lockfile = Some ''/tmp/x'', lockfile_fd = 3, errno = EAGAIN,
        handlers = [SIGHUP \<mapsto> Signal_handler, SIGINT \<mapsto> Signal_handler,
                    SIGTERM \<mapsto> Signal_handler],
        trace = [Sigaction SIGHUP, Sigaction SIGINT, Sigaction SIGTERM,
                 Creat (Some ''/tmp/x''), Lockf 3,
                 Fprintf (''Another instance is already running'' @ newline),
                 Unlink ''/tmp/x'', Close 3]\<rparr>,
       Exit EAGAIN)"
    by (simp add: main_def r acquire_def install_signal_handlers_def signals_def
          graceful_exit_def fprintf_def stdio_def emit_def set_errno_def init_state_def
          os_contended_def os_ok_def Let_def)
  have ids: "lock_identity (oracle3 n) solo_x = Some ''/tmp/x''" for n
    by (simp add: lock_identity_def r)
  have c1: "calls_of 1 three_invocations = before_wait (trace (fst (main (oracle3 1) solo_x)))"
    by (simp add: oracle3_def ok calls_of_def three_invocations_def before_wait_def)
  have c2: "calls_of 2 three_invocations = trace (fst (main (oracle3 2) solo_x))"
    by (simp add: oracle3_def contended calls_of_def three_invocations_def)
  have e2: "snd (main (oracle3 2) solo_x) = Exit EAGAIN"
    by (simp add: oracle3_def contended)
  have c3: "calls_of 3 three_invocations = before_wait (trace (fst (main (oracle3 3) solo_x)))"
    by (simp add: oracle3_def ok calls_of_def three_invocations_def before_wait_def)
  have k: "replay oracle3 three_invocations boot =
     Some \<lparr>k_names = [(''/tmp/x'', 1)], k_inodes = 2,
           k_open = [((3, 3), 1), ((1, 3), 0)],
           k_locks = [(1, 3), (0, 1)]\<rparr>"
    by (simp add: three_invocations_def boot_def oracle3_def os_contended_def os_ok_def)
  from ids c1 c2 e2 c3 k show ?thesis
    by (simp only: simp_thms)
qed

end
